theory Spec2Isabelle
  imports Main
begin

section \<open>salttesting/case.py: the process runner and the stalled-job reconciler\<close>

text \<open>
  A shallow embedding of \<^verbatim>\<open>ShellTestCase.run_script\<close> and of
  \<^verbatim>\<open>ModuleCase._check_state_return\<close> / \<^verbatim>\<open>ModuleCase.run_function\<close>.
  Everything the operating system decides (whether the script file exists, whether the
  spawn succeeds, what each poll of the child observes, whether a signal can be
  delivered, what the child writes) is a field of the record \<open>world\<close>; everything the
  code changes (the spawn count, the child's recorded return status, the two pipe
  handles, the signals sent) is a field of the record \<open>pstate\<close>, passed through the
  calls and returned with the result.
\<close>

subsection \<open>Python values and exceptions\<close>

datatype error =
    RuntimeError string
  | OSError nat
  | AttributeError
  | SkipTest

text \<open>
  The argument \<^verbatim>\<open>catch_stderr\<close> is tested twice in two different ways:
  \<^verbatim>\<open>if catch_stderr is True\<close> (line 214) and \<^verbatim>\<open>if catch_stderr\<close> (lines 257, 271).
  \<open>IsTrue\<close> is the object \<^verbatim>\<open>True\<close>, \<open>Truthy\<close> any other object that is true in a
  condition, \<open>Falsy\<close> any object that is false in a condition (\<^verbatim>\<open>False\<close>, \<^verbatim>\<open>None\<close>).
\<close>

datatype pyflag = IsTrue | Truthy | Falsy

definition flag_of_bool :: "bool \<Rightarrow> pyflag" where
  "flag_of_bool b = (if b then IsTrue else Falsy)"

definition truthy :: "pyflag \<Rightarrow> bool" where
  "truthy f = (f \<noteq> Falsy)"

subsection \<open>Results of \<^verbatim>\<open>run_script\<close>\<close>

text \<open>
  A captured stream is a list of lines or one undivided blob; \<open>Absent\<close> is the value
  \<^verbatim>\<open>None\<close> that \<^verbatim>\<open>communicate()\<close> gives for a stream that is not a pipe.
\<close>

datatype captured = Lines "string list" | Raw string | Absent

datatype result =
    RFalse
  | Out captured
  | OutCode captured "int option"
  | OutErr captured captured
  | OutErrCode captured captured "int option"

subsection \<open>\<^verbatim>\<open>str.splitlines\<close> on byte strings\<close>

text \<open>Line boundaries are LF, CR and CR LF; the boundaries are dropped.\<close>

fun splitlines_from :: "string \<Rightarrow> string \<Rightarrow> string list" where
  "splitlines_from acc [] = (if acc = [] then [] else [rev acc])"
| "splitlines_from acc [c] =
     (if c = CHR 0x0A \<or> c = CHR 0x0D then [rev acc] else [rev (c # acc)])"
| "splitlines_from acc (c # d # cs) =
     (if c = CHR 0x0D \<and> d = CHR 0x0A then rev acc # splitlines_from [] cs
      else if c = CHR 0x0A \<or> c = CHR 0x0D then rev acc # splitlines_from [] (d # cs)
      else splitlines_from (c # acc) (d # cs))"

definition splitlines :: "string \<Rightarrow> string list" where
  "splitlines s = splitlines_from [] s"

subsection \<open>\<^verbatim>\<open>'{0}'.format(timeout)\<close> for an integer\<close>

definition digit_char :: "nat \<Rightarrow> char" where
  "digit_char d = char_of (48 + d)"

fun digits_of :: "nat \<Rightarrow> string" where
  "digits_of n = (if n < 10 then [digit_char n] else digits_of (n div 10) @ [digit_char (n mod 10)])"

definition str_int :: "int \<Rightarrow> string" where
  "str_int i = (if i < 0 then CHR ''-'' # digits_of (nat (- i)) else digits_of (nat i))"

subsection \<open>The world and the process state\<close>

text \<open>
  One \<open>tick\<close> is one iteration of the polling loop: what \<^verbatim>\<open>process.poll()\<close> observes
  (\<open>None\<close>: the child is still running) and whether \<^verbatim>\<open>datetime.now() > stop_at\<close>.
\<close>

record tick =
  polled :: "int option"
  late :: bool

record world =
  script_isfile :: bool
  is_windows :: bool
  py26 :: bool
  spawn_errno :: "nat option"
  ticks :: "tick list"
  sigint_errno :: "nat option"
  sigkill_errno :: "nat option"
  child_stdout :: string
  child_stderr :: string
  exit_status :: int

datatype handle = NoPipe | Open | Closed

datatype signal = SIGINT | SIGKILL | SIGTERM

record pstate =
  spawn_calls :: nat
  returncode :: "int option"
  stdout :: handle
  stderr :: handle
  signals :: "signal list"

definition no_process :: pstate where
  "no_process = \<lparr>spawn_calls = 0, returncode = None, stdout = NoPipe, stderr = NoPipe,
     signals = []\<rparr>"

record popen_kwargs =
  shell :: bool
  stdout_pipe :: bool
  stderr_pipe :: bool
  close_fds :: bool
  preexec_setpgrp :: bool

text \<open>\<^verbatim>\<open>subprocess.Popen(cmd, **popen_kwargs)\<close>: raises the launch error or yields a child.\<close>

definition Popen :: "world \<Rightarrow> popen_kwargs \<Rightarrow> pstate \<Rightarrow> (error + unit) \<times> pstate" where
  "Popen w kw p =
     (case spawn_errno w of
        Some e \<Rightarrow> (Inl (OSError e), p\<lparr>spawn_calls := Suc (spawn_calls p)\<rparr>)
      | None \<Rightarrow>
          (Inr (), p\<lparr>spawn_calls := Suc (spawn_calls p), returncode := None,
             stdout := (if stdout_pipe kw then Open else NoPipe),
             stderr := (if stderr_pipe kw then Open else NoPipe)\<rparr>))"

text \<open>\<^verbatim>\<open>process.poll()\<close>: a return status, once recorded, stays.\<close>

definition poll :: "tick \<Rightarrow> pstate \<Rightarrow> pstate" where
  "poll t p = (case returncode p of Some c \<Rightarrow> p | None \<Rightarrow> p\<lparr>returncode := polled t\<rparr>)"

text \<open>\<^verbatim>\<open>process.wait()\<close>: blocks until the child has exited and records its status.\<close>

definition wait :: "world \<Rightarrow> pstate \<Rightarrow> pstate" where
  "wait w p =
     (case returncode p of Some c \<Rightarrow> p | None \<Rightarrow> p\<lparr>returncode := Some (exit_status w)\<rparr>)"

text \<open>
  \<^verbatim>\<open>process.communicate()\<close>: reads every pipe to its end, closes it, waits for the
  child; the element of a stream that is not a pipe is \<^verbatim>\<open>None\<close>.
\<close>

definition close_handle :: "handle \<Rightarrow> handle" where
  "close_handle h = (case h of NoPipe \<Rightarrow> NoPipe | Open \<Rightarrow> Closed | Closed \<Rightarrow> Closed)"

definition communicate :: "world \<Rightarrow> pstate \<Rightarrow> (string option \<times> string option) \<times> pstate" where
  "communicate w p =
     ((if stdout p = NoPipe then None else Some (child_stdout w),
       if stderr p = NoPipe then None else Some (child_stderr w)),
      (wait w p)\<lparr>stdout := close_handle (stdout p), stderr := close_handle (stderr p)\<rparr>)"

text \<open>\<^verbatim>\<open>os.killpg(os.getpgid(process.pid), sig)\<close>.\<close>

definition killpg :: "world \<Rightarrow> signal \<Rightarrow> pstate \<Rightarrow> (error + unit) \<times> pstate" where
  "killpg w sig p =
     (case (if sig = SIGINT then sigint_errno w else sigkill_errno w) of
        Some e \<Rightarrow> (Inl (OSError e), p)
      | None \<Rightarrow> (Inr (), p\<lparr>signals := signals p @ [sig]\<rparr>))"

text \<open>
  \<^verbatim>\<open>try: process.terminate() except OSError: pass\<close> (the two \<^verbatim>\<open>finally\<close> blocks):
  the attempt is recorded, its error is dropped.
\<close>

definition terminate_quietly :: "pstate \<Rightarrow> pstate" where
  "terminate_quietly p = p\<lparr>signals := signals p @ [SIGTERM]\<rparr>"

subsection \<open>The polling loop (lines 231 to 269)\<close>

text \<open>
  The loop leaves in one of three ways: by \<^verbatim>\<open>break\<close> (the child has a return status
  before the deadline), by the \<^verbatim>\<open>return\<close> statements of the timeout branch, or by an
  exception of \<^verbatim>\<open>os.killpg\<close>. The list of ticks is what the loop observes, one tick
  per iteration; \<open>None\<close> says that the loop is still running when the list ends.
\<close>

datatype loop_exit = Broke | TimedOut | Raised error

fun poll_loop :: "world \<Rightarrow> tick list \<Rightarrow> bool \<Rightarrow> pstate \<Rightarrow> (loop_exit \<times> pstate) option" where
  "poll_loop w [] term_sent p = None"
| "poll_loop w (t # ts) term_sent p =
     (let p1 = poll t p in
      if late t then
        (if \<not> term_sent then
           (case killpg w SIGINT p1 of
              (Inl e, p2) \<Rightarrow> Some (Raised e, p2)
            | (Inr u, p2) \<Rightarrow> poll_loop w ts True p2)
         else
           (case killpg w SIGKILL p1 of
              (Inl e, p2) \<Rightarrow>
                (case e of
                   OSError n \<Rightarrow> if n \<noteq> 3 then Some (Raised e, p2) else Some (TimedOut, p2)
                 | _ \<Rightarrow> Some (Raised e, p2))
            | (Inr u, p2) \<Rightarrow> Some (TimedOut, p2)))
      else if returncode p1 \<noteq> None then Some (Broke, p1)
      else poll_loop w ts term_sent p1)"

definition timeout_message :: "int \<Rightarrow> string" where
  "timeout_message t =
     ''Process took more than '' @ str_int t @ '' seconds to complete. Process Killed!''"

definition stderr_sentinel :: string where
  "stderr_sentinel = ''Process killed, unable to catch stderr output''"

text \<open>Lines 253 to 266: the value returned after the kill.\<close>

definition timeout_result :: "pyflag \<Rightarrow> bool \<Rightarrow> int \<Rightarrow> pstate \<Rightarrow> result" where
  "timeout_result catch_stderr with_retcode t p =
     (let out = Lines [timeout_message t] in
      if truthy catch_stderr then
        (let err = Lines [stderr_sentinel] in
         if with_retcode then OutErrCode out err (returncode p) else OutErr out err)
      else if with_retcode then OutCode out (returncode p)
      else Out out)"

subsection \<open>Capturing the streams (lines 271 to 341)\<close>

definition close_stdout :: "pstate \<Rightarrow> pstate" where
  "close_stdout p = p\<lparr>stdout := close_handle (stdout p)\<rparr>"

definition close_stderr :: "pstate \<Rightarrow> pstate" where
  "close_stderr p = p\<lparr>stderr := close_handle (stderr p)\<rparr>"

text \<open>\<^verbatim>\<open>x.splitlines()\<close> where \<^verbatim>\<open>x\<close> may be \<^verbatim>\<open>None\<close>.\<close>

definition splitlines_of :: "string option \<Rightarrow> error + captured" where
  "splitlines_of x = (case x of None \<Rightarrow> Inl AttributeError | Some s \<Rightarrow> Inr (Lines (splitlines s)))"

definition raw_of :: "string option \<Rightarrow> captured" where
  "raw_of x = (case x of None \<Rightarrow> Absent | Some s \<Rightarrow> Raw s)"

text \<open>Lines 297 to 313: the \<^verbatim>\<open>return\<close> statements of the branch that captures stderr.\<close>

definition shape_with_stderr ::
  "bool \<Rightarrow> bool \<Rightarrow> string option \<Rightarrow> string option \<Rightarrow> int option \<Rightarrow> error + result" where
  "shape_with_stderr with_retcode raw out err rc =
     (if with_retcode then
        (if out \<noteq> None \<and> err \<noteq> None then
           (if \<not> raw then
              (case (splitlines_of out, splitlines_of err) of
                 (Inr a, Inr b) \<Rightarrow> Inr (OutErrCode a b rc)
               | (Inl e, _) \<Rightarrow> Inl e
               | (_, Inl e) \<Rightarrow> Inl e)
            else Inr (OutErrCode (raw_of out) (raw_of err) rc))
         else
           (case splitlines_of out of
              Inr a \<Rightarrow> Inr (OutErrCode a (Lines []) rc)
            | Inl e \<Rightarrow> Inl e))
      else
        (if out \<noteq> None \<and> err \<noteq> None then
           (if \<not> raw then
              (case (splitlines_of out, splitlines_of err) of
                 (Inr a, Inr b) \<Rightarrow> Inr (OutErr a b)
               | (Inl e, _) \<Rightarrow> Inl e
               | (_, Inl e) \<Rightarrow> Inl e)
            else Inr (OutErr (raw_of out) (raw_of err)))
         else if \<not> raw then
           (case splitlines_of out of
              Inr a \<Rightarrow> Inr (OutErr a (Lines []))
            | Inl e \<Rightarrow> Inl e)
         else Inr (OutErr (raw_of out) (Lines []))))"

text \<open>Lines 326 to 335: the \<^verbatim>\<open>return\<close> statements of the branch without stderr.\<close>

definition shape_stdout_only :: "bool \<Rightarrow> bool \<Rightarrow> string option \<Rightarrow> int option \<Rightarrow> error + result" where
  "shape_stdout_only with_retcode raw out rc =
     (if with_retcode then
        (if \<not> raw then
           (case splitlines_of out of Inr a \<Rightarrow> Inr (OutCode a rc) | Inl e \<Rightarrow> Inl e)
         else Inr (OutCode (raw_of out) rc))
      else
        (if \<not> raw then
           (case splitlines_of out of Inr a \<Rightarrow> Inr (Out a) | Inl e \<Rightarrow> Inl e)
         else Inr (Out (raw_of out))))"

text \<open>
  \<^verbatim>\<open>process.stdout.read()\<close> and \<^verbatim>\<open>process.stderr.read()\<close> of the Python 2.6 branch: an
  attribute error when the stream attribute is \<^verbatim>\<open>None\<close>.
\<close>

definition read_handle :: "handle \<Rightarrow> string \<Rightarrow> error + string option" where
  "read_handle h content = (if h = NoPipe then Inl AttributeError else Inr (Some content))"

definition capture :: "world \<Rightarrow> pyflag \<Rightarrow> bool \<Rightarrow> bool \<Rightarrow> pstate \<Rightarrow> (error + result) \<times> pstate" where
  "capture w catch_stderr with_retcode raw p =
     (if truthy catch_stderr then
        (case
           (if py26 w then
              (let p1 = wait w p in
               case read_handle (stdout p1) (child_stdout w) of
                 Inl e \<Rightarrow> Inl (e, p1)
               | Inr out \<Rightarrow>
                   (case read_handle (stderr p1) (child_stderr w) of
                      Inl e \<Rightarrow> Inl (e, p1)
                    | Inr err \<Rightarrow> Inr (out, err, p1)))
            else (case communicate w p of ((out, err), p1) \<Rightarrow> Inr (out, err, p1)))
         of
           Inl (e, p1) \<Rightarrow> (Inl e, p1)
         | Inr (out, err, p1) \<Rightarrow>
             (let p2 = (if stdout p1 \<noteq> NoPipe then close_stdout p1 else p1);
                  p3 = (if stderr p2 \<noteq> NoPipe then close_stderr p2 else p2)
              in (shape_with_stderr with_retcode raw out err (returncode p3),
                  terminate_quietly p3)))
      else
        (case communicate w p of
           ((out, err), p1) \<Rightarrow>
             (if stdout p1 = NoPipe then (Inl AttributeError, p1)
              else
                (let p2 = close_stdout p1
                 in (shape_stdout_only with_retcode raw out (returncode p2),
                     terminate_quietly p2)))))"

subsection \<open>\<^verbatim>\<open>ShellTestCase.run_script\<close>\<close>

text \<open>
  \<open>script_isfile\<close> is the value of \<^verbatim>\<open>os.path.isfile(script_path)\<close> at line 196, after
  \<^verbatim>\<open>get_script_path\<close> has returned. The command line (lines 199 to 207) is passed to
  the operating system only and is not modelled. The result is \<open>None\<close> when the polling
  loop is still running at the end of the observed ticks.
\<close>

definition run_script ::
  "world \<Rightarrow> pyflag \<Rightarrow> bool \<Rightarrow> int option \<Rightarrow> bool \<Rightarrow> ((error + result) \<times> pstate) option" where
  "run_script w catch_stderr with_retcode timeout raw =
     (if \<not> script_isfile w then Some (Inr RFalse, no_process)
      else
        (let kw0 = \<lparr>shell = True, stdout_pipe = True, stderr_pipe = False, close_fds = False,
                     preexec_setpgrp = False\<rparr>;
             kw1 = (if catch_stderr = IsTrue then kw0\<lparr>stderr_pipe := True\<rparr> else kw0)
         in
         case
           (if \<not> is_windows w then Inr (kw1\<lparr>close_fds := True, preexec_setpgrp := True\<rparr>)
            else if is_windows w \<and> timeout \<noteq> None
              then Inl (RuntimeError ''Timeout is not supported under windows'')
            else Inr kw1)
         of
           Inl e \<Rightarrow> Some (Inl e, no_process)
         | Inr kw \<Rightarrow>
             (case Popen w kw no_process of
                (Inl e, p) \<Rightarrow> Some (Inl e, p)
              | (Inr u, p) \<Rightarrow>
                  (case timeout of
                     None \<Rightarrow> Some (capture w catch_stderr with_retcode raw p)
                   | Some t \<Rightarrow>
                       (case poll_loop w (ticks w) False p of
                          None \<Rightarrow> None
                        | Some (Raised e, p1) \<Rightarrow> Some (Inl e, p1)
                        | Some (TimedOut, p1) \<Rightarrow>
                            Some (Inr (timeout_result catch_stderr with_retcode t p1), p1)
                        | Some (Broke, p1) \<Rightarrow>
                            Some (capture w catch_stderr with_retcode raw p1))))))"

subsection \<open>Python values handled by the reconciler\<close>

datatype pyval =
    PyNone
  | PyBool bool
  | PyInt int
  | PyStr string
  | PyList "pyval list"
  | PyDict "(pyval \<times> pyval) list"

subsection \<open>\<^verbatim>\<open>STATE_FUNCTION_RUNNING_RE\<close> and \<^verbatim>\<open>re.match\<close>\<close>

text \<open>
  The pattern of lines 31 to 34 is a sequence of four kinds of pieces: literal text,
  one character out of a set (\<^verbatim>\<open>(?:"|')\<close>), a named group \<^verbatim>\<open>.*\<close> and a named group
  \<^verbatim>\<open>[\d]+\<close>. Both repetitions are greedy and give characters back when the rest of the
  pattern fails, as the backtracking matcher of \<^verbatim>\<open>re\<close> does; \<^verbatim>\<open>.\<close> matches every
  character but the line feed. \<^verbatim>\<open>re.match\<close> anchors at the start of the line only.
\<close>

datatype atom = Lit string | OneOf string | AnyStar string | Digits1 string

definition is_digit :: "char \<Rightarrow> bool" where
  "is_digit c = (c \<in> set ''0123456789'')"

definition not_newline :: "char \<Rightarrow> bool" where
  "not_newline c = (c \<noteq> CHR 0x0A)"

text \<open>
  \<open>greedy P k acc s\<close>: \<open>acc\<close> holds, reversed, the characters the repetition has taken;
  take one more character of class \<open>P\<close> if the continuation \<open>k\<close> then succeeds, else
  stop here.
\<close>

fun greedy :: "(char \<Rightarrow> bool) \<Rightarrow> (string \<Rightarrow> string \<Rightarrow> 'a option) \<Rightarrow> string \<Rightarrow> string \<Rightarrow> 'a option" where
  "greedy P k acc [] = k (rev acc) []"
| "greedy P k acc (c # cs) =
     (if P c then
        (case greedy P k (c # acc) cs of
           Some r \<Rightarrow> Some r
         | None \<Rightarrow> k (rev acc) (c # cs))
      else k (rev acc) (c # cs))"

fun match_atoms :: "atom list \<Rightarrow> string \<Rightarrow> (string \<times> string) list option" where
  "match_atoms [] s = Some []"
| "match_atoms (Lit l # ps) s =
     (if take (length l) s = l then match_atoms ps (drop (length l) s) else None)"
| "match_atoms (OneOf cs # ps) s =
     (case s of
        [] \<Rightarrow> None
      | c # rest \<Rightarrow> if c \<in> set cs then match_atoms ps rest else None)"
| "match_atoms (AnyStar g # ps) s =
     greedy not_newline (\<lambda>cap rest. map_option ((#) (g, cap)) (match_atoms ps rest)) [] s"
| "match_atoms (Digits1 g # ps) s =
     (case s of
        [] \<Rightarrow> None
      | c # rest \<Rightarrow>
          if is_digit c
          then greedy is_digit (\<lambda>cap rest'. map_option ((#) (g, cap)) (match_atoms ps rest'))
                 [c] rest
          else None)"

definition quote_chars :: string where
  "quote_chars = [CHR 0x22, CHR 0x27]"

definition STATE_FUNCTION_RUNNING_RE :: "atom list" where
  "STATE_FUNCTION_RUNNING_RE =
     [Lit ''The function '', OneOf quote_chars, AnyStar ''state_func'', OneOf quote_chars,
      Lit '' is running as PID '', Digits1 ''pid'', Lit '' and was started at '',
      AnyStar ''date'', Lit '' with jid '', Digits1 ''jid'']"

text \<open>
  \<^verbatim>\<open>STATE_FUNCTION_RUNNING_RE.match(item)\<close> followed by \<^verbatim>\<open>match.group('jid')\<close>: the
  job id of a marker line, \<open>None\<close> for a line that is no marker.
\<close>

definition marker_jid :: "string \<Rightarrow> string option" where
  "marker_jid item =
     (case match_atoms STATE_FUNCTION_RUNNING_RE item of
        None \<Rightarrow> None
      | Some groups \<Rightarrow> map_of groups ''jid'')"

subsection \<open>\<^verbatim>\<open>ModuleCase._check_state_return\<close> and \<^verbatim>\<open>ModuleCase.run_function\<close>\<close>

text \<open>
  \<^verbatim>\<open>self.run_function\<close> is a parameter of the reconciler: a function from the salt
  function's name and its arguments, changing a state \<open>'s\<close>, that returns a value, raises,
  or does not return (\<open>None\<close>). \<^verbatim>\<open>repr\<close> is a parameter as well.
\<close>

type_synonym 's runfun = "string \<Rightarrow> pyval list \<Rightarrow> 's \<Rightarrow> ((error + pyval) \<times> 's) option"

definition enforced_line :: "(pyval \<Rightarrow> string) \<Rightarrow> pyval \<Rightarrow> pyval \<Rightarrow> string" where
  "enforced_line rp job_data job_kill =
     ''[TEST SUITE ENFORCED]'' @
     (''A running state.single was found causing a state lock. Job details: '' @
      rp job_data @ ''  Killing Job Returned: '' @ rp job_kill) @
     ''[/TEST SUITE ENFORCED]''"

text \<open>
  The loop of lines 409 to 434 over the copy \<^verbatim>\<open>ret[:]\<close>: \<open>jids\<close> and \<open>ret\<close> are the two
  lists the loop appends to.
\<close>

fun check_loop ::
  "(pyval \<Rightarrow> string) \<Rightarrow> 's runfun \<Rightarrow> pyval list \<Rightarrow> string list \<Rightarrow> pyval list \<Rightarrow> 's \<Rightarrow>
   ((error + pyval list) \<times> 's) option" where
  "check_loop rp rf [] jids ret s = Some (Inr ret, s)"
| "check_loop rp rf (item # items) jids ret s =
     (case item of
        PyStr line \<Rightarrow>
          (case marker_jid line of
             None \<Rightarrow> check_loop rp rf items jids ret s
           | Some jid \<Rightarrow>
               if jid \<in> set jids then check_loop rp rf items jids ret s
               else
                 (case rf ''saltutil.find_job'' [PyStr jid] s of
                    None \<Rightarrow> None
                  | Some (Inl e, s1) \<Rightarrow> Some (Inl e, s1)
                  | Some (Inr job_data, s1) \<Rightarrow>
                      (case rf ''saltutil.kill_job'' [PyStr jid] s1 of
                         None \<Rightarrow> None
                       | Some (Inl e, s2) \<Rightarrow> Some (Inl e, s2)
                       | Some (Inr job_kill, s2) \<Rightarrow>
                           check_loop rp rf items (jids @ [jid])
                             (ret @ [PyStr (enforced_line rp job_data job_kill)]) s2)))
      | _ \<Rightarrow> check_loop rp rf items jids ret s)"

definition check_state_return_with ::
  "(pyval \<Rightarrow> string) \<Rightarrow> 's runfun \<Rightarrow> pyval \<Rightarrow> 's \<Rightarrow> ((error + pyval) \<times> 's) option" where
  "check_state_return_with rp rf ret s =
     (case ret of
        PyDict d \<Rightarrow> Some (Inr ret, s)
      | PyList items \<Rightarrow>
          (case check_loop rp rf items [] items s of
             None \<Rightarrow> None
           | Some (Inl e, s1) \<Rightarrow> Some (Inl e, s1)
           | Some (Inr ret1, s1) \<Rightarrow> Some (Inr (PyList ret1), s1))
      | _ \<Rightarrow> Some (Inr ret, s))"

text \<open>
  \<^verbatim>\<open>self.client.cmd(minion_tgt, function, arg, timeout=timeout, kwarg=kwargs)\<close>: the
  reply, a dictionary from minion names to values, may depend on every call made before.
  The state of \<^verbatim>\<open>run_function\<close> is the list of the calls made.
\<close>

type_synonym call = "string \<times> string \<times> pyval list"

type_synonym client = "call list \<Rightarrow> call \<Rightarrow> (string \<rightharpoonup> pyval)"

definition know_to_return_none :: "string list" where
  "know_to_return_none = [''file.chown'', ''file.chgrp'', ''ssh.recv_known_host'']"

text \<open>
  \<^verbatim>\<open>run_function\<close> and \<^verbatim>\<open>_check_state_return\<close> call each other. The first argument
  bounds the depth of these calls; \<open>None\<close> says that the bound was reached.
\<close>

primrec run_function ::
  "nat \<Rightarrow> (pyval \<Rightarrow> string) \<Rightarrow> client \<Rightarrow> string \<Rightarrow> pyval list \<Rightarrow> string \<Rightarrow> call list \<Rightarrow>
   ((error + pyval) \<times> call list) option" where
  "run_function 0 rp cl function arg minion_tgt log = None"
| "run_function (Suc n) rp cl function arg minion_tgt log =
     (let orig = cl log (minion_tgt, function, arg);
          log1 = log @ [(minion_tgt, function, arg)]
      in case orig minion_tgt of
           None \<Rightarrow> Some (Inl SkipTest, log1)
         | Some v \<Rightarrow>
             if v = PyNone \<and> function \<notin> set know_to_return_none then Some (Inl SkipTest, log1)
             else check_state_return_with rp
                    (\<lambda>f a. run_function n rp cl f a ''minion'') v log1)"

definition check_state_return ::
  "nat \<Rightarrow> (pyval \<Rightarrow> string) \<Rightarrow> client \<Rightarrow> pyval \<Rightarrow> call list \<Rightarrow> ((error + pyval) \<times> call list) option" where
  "check_state_return n rp cl ret log =
     check_state_return_with rp (\<lambda>f a. run_function n rp cl f a ''minion'') ret log"

section \<open>What the specification asks for\<close>

subsection \<open>The shape of a result\<close>

text \<open>
  The specification: the result is a triple (out, err, code) when stderr is captured and
  the exit code is wanted, a pair (out, err) when only stderr is captured, a pair
  (out, code) when only the exit code is wanted, and out alone otherwise; out and err are
  line sequences unless raw output is requested, and blobs when it is.
\<close>

definition rendered :: "bool \<Rightarrow> string \<Rightarrow> captured" where
  "rendered raw_output s = (if raw_output then Raw s else Lines (splitlines s))"

definition requested_shape ::
  "bool \<Rightarrow> bool \<Rightarrow> bool \<Rightarrow> string \<Rightarrow> string \<Rightarrow> int option \<Rightarrow> result" where
  "requested_shape capture_stderr want_exit_code raw_output out err code =
     (if capture_stderr \<and> want_exit_code
        then OutErrCode (rendered raw_output out) (rendered raw_output err) code
      else if capture_stderr then OutErr (rendered raw_output out) (rendered raw_output err)
      else if want_exit_code then OutCode (rendered raw_output out) code
      else Out (rendered raw_output out))"

fun is_rendered :: "bool \<Rightarrow> captured \<Rightarrow> bool" where
  "is_rendered raw_output (Lines ls) = (\<not> raw_output)"
| "is_rendered raw_output (Raw b) = raw_output"
| "is_rendered raw_output Absent = False"

fun matches_shape :: "bool \<Rightarrow> bool \<Rightarrow> bool \<Rightarrow> result \<Rightarrow> bool" where
  "matches_shape capture_stderr want_exit_code raw_output (OutErrCode out err code) =
     (capture_stderr \<and> want_exit_code \<and> is_rendered raw_output out \<and> is_rendered raw_output err)"
| "matches_shape capture_stderr want_exit_code raw_output (OutErr out err) =
     (capture_stderr \<and> \<not> want_exit_code \<and> is_rendered raw_output out
      \<and> is_rendered raw_output err)"
| "matches_shape capture_stderr want_exit_code raw_output (OutCode out code) =
     (\<not> capture_stderr \<and> want_exit_code \<and> is_rendered raw_output out)"
| "matches_shape capture_stderr want_exit_code raw_output (Out out) =
     (\<not> capture_stderr \<and> \<not> want_exit_code \<and> is_rendered raw_output out)"
| "matches_shape capture_stderr want_exit_code raw_output RFalse = False"

text \<open>The state of the child right after a successful spawn.\<close>

definition spawned :: "pyflag \<Rightarrow> pstate" where
  "spawned catch_stderr = \<lparr>spawn_calls = 1, returncode = None, stdout = Open,
     stderr = (if catch_stderr = IsTrue then Open else NoPipe), signals = []\<rparr>"

subsection \<open>The timeout path\<close>

text \<open>
  The status that \<^verbatim>\<open>process.returncode\<close> holds after the polls of two iterations, for a
  child that had no status before them.
\<close>

definition last_polled :: "tick \<Rightarrow> tick \<Rightarrow> int option" where
  "last_polled t1 t2 = (case polled t1 of Some c \<Rightarrow> Some c | None \<Rightarrow> polled t2)"

definition signalled :: "signal \<Rightarrow> pstate \<Rightarrow> pstate" where
  "signalled sig p = p\<lparr>signals := signals p @ [sig]\<rparr>"

text \<open>
  The specification of the result after a kill: the tuple that \<^verbatim>\<open>catch_stderr\<close> and
  \<^verbatim>\<open>with_retcode\<close> ask for, whose output is the one line that explains the timeout and
  whose error output is the one line that explains why stderr is missing.
\<close>

definition killed_result :: "bool \<Rightarrow> bool \<Rightarrow> int \<Rightarrow> int option \<Rightarrow> result" where
  "killed_result capture_stderr want_exit_code t code =
     (let out = Lines [''Process took more than '' @ str_int t @
                       '' seconds to complete. Process Killed!''];
          err = Lines [''Process killed, unable to catch stderr output'']
      in if capture_stderr \<and> want_exit_code then OutErrCode out err code
         else if capture_stderr then OutErr out err
         else if want_exit_code then OutCode out code
         else Out out)"


subsection \<open>Concrete worlds\<close>

text \<open>A child that prints one line and exits with status 0, on a POSIX platform.\<close>

definition hello_world :: world where
  "hello_world = \<lparr>script_isfile = True, is_windows = False, py26 = False, spawn_errno = None,
     ticks = [], sigint_errno = None, sigkill_errno = None,
     child_stdout = ''hello'' @ [CHR 0x0A], child_stderr = [], exit_status = 0\<rparr>"

text \<open>The same child on a platform without process groups.\<close>

definition windows_world :: world where
  "windows_world = hello_world\<lparr>is_windows := True\<rparr>"

text \<open>
  A child that is still running when the deadline passes: one iteration before the
  deadline, then two after it, and no poll ever sees a return status.
\<close>

definition slow_world :: world where
  "slow_world = hello_world\<lparr>ticks :=
     [\<lparr>polled = None, late = False\<rparr>, \<lparr>polled = None, late = True\<rparr>,
      \<lparr>polled = None, late = True\<rparr>]\<rparr>"

text \<open>
  A child that exits just as the deadline passes: the poll of the first late iteration
  reaps it, so its process group is gone when the interrupt is sent (errno 3, ESRCH).
\<close>

definition race_world :: world where
  "race_world = hello_world\<lparr>ticks := [\<lparr>polled = Some 0, late = True\<rparr>],
     sigint_errno := Some 3\<rparr>"

text \<open>The same race one iteration later, at the kill signal.\<close>

definition late_race_world :: world where
  "late_race_world = hello_world\<lparr>ticks :=
     [\<lparr>polled = None, late = True\<rparr>, \<lparr>polled = Some 0, late = True\<rparr>],
     sigkill_errno := Some 3\<rparr>"

subsection \<open>The reconciler\<close>

text \<open>The job id that the loop extracts from an item of the list: only strings are matched.\<close>

fun item_jid :: "pyval \<Rightarrow> string option" where
  "item_jid (PyStr line) = marker_jid line"
| "item_jid v = None"

text \<open>A marker line: a string that \<^verbatim>\<open>STATE_FUNCTION_RUNNING_RE.match\<close> accepts.\<close>

fun is_marker :: "pyval \<Rightarrow> bool" where
  "is_marker (PyStr line) = (match_atoms STATE_FUNCTION_RUNNING_RE line \<noteq> None)"
| "is_marker v = False"

text \<open>The job ids of the marker lines of a list, in order, with repetitions.\<close>

definition marker_jids :: "pyval list \<Rightarrow> string list" where
  "marker_jids items = List.map_filter item_jid items"

text \<open>
  A list without the elements of \<open>seen\<close> and without repetitions, each element kept where
  it first occurs.
\<close>

fun first_occurrences :: "string list \<Rightarrow> string list \<Rightarrow> string list" where
  "first_occurrences seen [] = []"
| "first_occurrences seen (x # xs) =
     (if x \<in> set seen then first_occurrences seen xs
      else x # first_occurrences (seen @ [x]) xs)"

text \<open>
  The specification of the recovery: for each job id in turn, one \<^verbatim>\<open>saltutil.find_job\<close>
  query, one \<^verbatim>\<open>saltutil.kill_job\<close> request, and one diagnostic line made of the two
  results; an exception of either call ends the pass.
\<close>

fun handle_jobs ::
  "(pyval \<Rightarrow> string) \<Rightarrow> 's runfun \<Rightarrow> string list \<Rightarrow> 's \<Rightarrow> ((error + string list) \<times> 's) option" where
  "handle_jobs rp rf [] s = Some (Inr [], s)"
| "handle_jobs rp rf (jid # jids) s =
     (case rf ''saltutil.find_job'' [PyStr jid] s of
        None \<Rightarrow> None
      | Some (Inl e, s1) \<Rightarrow> Some (Inl e, s1)
      | Some (Inr job_data, s1) \<Rightarrow>
          (case rf ''saltutil.kill_job'' [PyStr jid] s1 of
             None \<Rightarrow> None
           | Some (Inl e, s2) \<Rightarrow> Some (Inl e, s2)
           | Some (Inr job_kill, s2) \<Rightarrow>
               (case handle_jobs rp rf jids s2 of
                  None \<Rightarrow> None
                | Some (Inl e, s3) \<Rightarrow> Some (Inl e, s3)
                | Some (Inr ds, s3) \<Rightarrow>
                    Some (Inr (enforced_line rp job_data job_kill # ds), s3))))"

text \<open>The list returned: the original items followed by the diagnostic lines.\<close>

definition append_diagnostics ::
  "pyval list \<Rightarrow> ((error + string list) \<times> 's) option \<Rightarrow> ((error + pyval list) \<times> 's) option" where
  "append_diagnostics ret r =
     (case r of
        None \<Rightarrow> None
      | Some (Inl e, s1) \<Rightarrow> Some (Inl e, s1)
      | Some (Inr ds, s1) \<Rightarrow> Some (Inr (ret @ map PyStr ds), s1))"

text \<open>
  A stand-in for \<^verbatim>\<open>self.run_function\<close> that answers with \<open>reply\<close> (a value or an
  exception) and records every call the pass makes, in order.
\<close>

definition recording ::
  "(string \<Rightarrow> pyval list \<Rightarrow> error + pyval) \<Rightarrow> (string \<times> pyval list) list runfun" where
  "recording reply f a tr = Some (reply f a, tr @ [(f, a)])"

text \<open>The two calls that handling one job id makes.\<close>

definition job_calls :: "string \<Rightarrow> (string \<times> pyval list) list" where
  "job_calls jid = [(''saltutil.find_job'', [PyStr jid]), (''saltutil.kill_job'', [PyStr jid])]"

subsection \<open>Concrete inputs of the reconciler\<close>

text \<open>
  The marker line of the specification's example, with the two quote characters as
  parameters.
\<close>

definition marker_line :: "char \<Rightarrow> char \<Rightarrow> string" where
  "marker_line q1 q2 =
     ''The function '' @ [q1] @ ''state.sls'' @ [q2] @
     '' is running as PID 123 and was started at 2020-01-01T00:00:00 with jid 456''"

text \<open>A stand-in for \<^verbatim>\<open>repr\<close>, and a client whose minion answers with the first argument.\<close>

fun plain_repr :: "pyval \<Rightarrow> string" where
  "plain_repr (PyStr s) = [CHR 0x27] @ s @ [CHR 0x27]"
| "plain_repr v = ''?''"

definition echo_client :: client where
  "echo_client log c =
     [fst c \<mapsto> (case snd (snd c) of [] \<Rightarrow> PyStr ''ok'' | x # xs \<Rightarrow> x)]"

definition echo_reply :: "string \<Rightarrow> pyval list \<Rightarrow> error + pyval" where
  "echo_reply f a = Inr (PyStr f)"


text \<open>Two marker lines with the same job id, and an item that is no string.\<close>

definition twin_lines :: "pyval list" where
  "twin_lines = [PyStr (marker_line (CHR 0x22) (CHR 0x22)), PyInt 7,
     PyStr (marker_line (CHR 0x27) (CHR 0x27))]"

text \<open>Items without a marker line.\<close>

definition plain_lines :: "pyval list" where
  "plain_lines = [PyStr ''a'', PyInt 3, PyStr ''The function is running'', PyNone]"

section \<open>Properties of the process runner\<close>

lemma capture_of_bool_flags:
  assumes "returncode p = None" "stdout p = Open" "stderr p = (if cs then Open else NoPipe)"
  shows "\<exists>p'. capture w (flag_of_bool cs) rc raw p
    = (Inr (requested_shape cs rc raw (child_stdout w) (child_stderr w) (Some (exit_status w))), p')
      \<and> stdout p' = Closed \<and> stderr p' \<noteq> Open"
  using assms
  by (cases cs; cases rc; cases raw; cases "py26 w")
     (simp_all add: capture_def communicate_def wait_def close_stdout_def close_stderr_def
        close_handle_def read_handle_def shape_stdout_only_def shape_with_stderr_def
        terminate_quietly_def truthy_def splitlines_of_def raw_of_def flag_of_bool_def
        requested_shape_def rendered_def Let_def)

lemma matches_requested_shape:
  "matches_shape cs rc raw (requested_shape cs rc raw out err code)"
  by (simp add: requested_shape_def rendered_def)

lemma run_script_no_timeout:
  assumes "script_isfile w" "spawn_errno w = None"
  shows "run_script w catch_stderr with_retcode None raw
     = Some (capture w catch_stderr with_retcode raw (spawned catch_stderr))"
  using assms by (simp add: run_script_def Let_def Popen_def no_process_def spawned_def)

lemma run_script_timeout:
  assumes "script_isfile w" "\<not> is_windows w" "spawn_errno w = None"
  shows "run_script w catch_stderr with_retcode (Some t) raw
     = (case poll_loop w (ticks w) False (spawned catch_stderr) of
          None \<Rightarrow> None
        | Some (Raised e, p1) \<Rightarrow> Some (Inl e, p1)
        | Some (TimedOut, p1) \<Rightarrow>
            Some (Inr (timeout_result catch_stderr with_retcode t p1), p1)
        | Some (Broke, p1) \<Rightarrow> Some (capture w catch_stderr with_retcode raw p1))"
  using assms by (simp add: run_script_def Let_def Popen_def no_process_def spawned_def)

text \<open>
  Claim C1. Without a timeout, for a script that exists and a spawn that succeeds, every
  one of the eight combinations of the boolean flags \<^verbatim>\<open>catch_stderr\<close>,
  \<^verbatim>\<open>with_retcode\<close> and \<^verbatim>\<open>raw\<close> returns exactly the requested shape: the triple, the
  pair or the bare output, with \<open>out\<close> and \<open>err\<close> split into lines unless \<^verbatim>\<open>raw\<close> is set,
  and the child's exit status in the code position.
\<close>

theorem run_script_shape_without_timeout:
  assumes "script_isfile w" "spawn_errno w = None"
  shows "\<exists>p. run_script w (flag_of_bool cs) rc None raw
       = Some (Inr (requested_shape cs rc raw (child_stdout w) (child_stderr w)
                      (Some (exit_status w))), p)
     \<and> matches_shape cs rc raw
          (requested_shape cs rc raw (child_stdout w) (child_stderr w) (Some (exit_status w)))"
proof -
  let ?p = "spawned (flag_of_bool cs)"
  have "returncode ?p = None" "stdout ?p = Open" "stderr ?p = (if cs then Open else NoPipe)"
    by (simp_all add: spawned_def flag_of_bool_def)
  from capture_of_bool_flags [OF this] obtain p' where
    "capture w (flag_of_bool cs) rc raw ?p
      = (Inr (requested_shape cs rc raw (child_stdout w) (child_stderr w)
                (Some (exit_status w))), p')"
    by blast
  then show ?thesis
    using assms by (simp add: run_script_no_timeout matches_requested_shape)
qed

theorem run_script_shape_without_timeout_witness:
  "script_isfile hello_world \<and> spawn_errno hello_world = None
   \<and> (\<exists>p. run_script hello_world (flag_of_bool True) True None False
          = Some (Inr (OutErrCode (Lines [''hello'']) (Lines []) (Some 0)), p))"
  using run_script_shape_without_timeout [of hello_world True True False]
  by (simp add: hello_world_def requested_shape_def rendered_def splitlines_def)

text \<open>
  Claim C7. On a platform without process groups, a call with a timeout (for a script
  that exists) raises \<^verbatim>\<open>RuntimeError\<close> and the state it leaves is the one in which
  \<^verbatim>\<open>Popen\<close> was never called: the spawn count is zero.
\<close>

theorem run_script_windows_timeout_no_spawn:
  assumes "is_windows w" "script_isfile w"
  shows "\<exists>p. run_script w catch_stderr with_retcode (Some t) raw
       = Some (Inl (RuntimeError ''Timeout is not supported under windows''), p)
     \<and> spawn_calls p = 0"
  using assms by (simp add: run_script_def Let_def no_process_def)

theorem run_script_windows_timeout_no_spawn_witness:
  "is_windows windows_world \<and> script_isfile windows_world
   \<and> (\<exists>p. run_script windows_world IsTrue True (Some 5) False
          = Some (Inl (RuntimeError ''Timeout is not supported under windows''), p)
        \<and> spawn_calls p = 0)"
  using run_script_windows_timeout_no_spawn [of windows_world IsTrue True 5 False]
  by (simp add: windows_world_def hello_world_def)

subsection \<open>The polling loop\<close>

lemma poll_running: "returncode p = None \<Longrightarrow> polled t = None \<Longrightarrow> poll t p = p"
  by (simp add: poll_def)

lemma poll_loop_early:
  assumes "\<not> late t" "polled t = None" "returncode p = None"
  shows "poll_loop w (t # ts) term_sent p = poll_loop w ts term_sent p"
proof -
  have "poll t p = p" using assms by (simp add: poll_running)
  then show ?thesis using assms(1,3) by (simp add: Let_def)
qed

lemma poll_loop_waiting:
  assumes "\<forall>t\<in>set pre. \<not> late t \<and> polled t = None" "returncode p = None"
  shows "poll_loop w (pre @ ts) term_sent p = poll_loop w ts term_sent p"
  using assms(1)
proof (induction pre)
  case Nil
  show ?case by simp
next
  case (Cons a pre)
  have a: "\<not> late a" "polled a = None" and rest: "\<forall>t\<in>set pre. \<not> late t \<and> polled t = None"
    using Cons.prems by simp_all
  have "poll_loop w ((a # pre) @ ts) term_sent p = poll_loop w (a # (pre @ ts)) term_sent p"
    by (simp only: append_Cons)
  also have "\<dots> = poll_loop w (pre @ ts) term_sent p"
    using a assms(2) by (rule poll_loop_early)
  also have "\<dots> = poll_loop w ts term_sent p"
    using rest by (rule Cons.IH)
  finally show ?case .
qed

lemma poll_fields:
  "stdout (poll t p) = stdout p" "stderr (poll t p) = stderr p"
  "spawn_calls (poll t p) = spawn_calls p" "signals (poll t p) = signals p"
  "returncode (poll t p) = (case returncode p of Some c \<Rightarrow> Some c | None \<Rightarrow> polled t)"
  by (simp_all add: poll_def split: option.split)

lemma signalled_fields:
  "stdout (signalled sig p) = stdout p" "stderr (signalled sig p) = stderr p"
  "spawn_calls (signalled sig p) = spawn_calls p" "returncode (signalled sig p) = returncode p"
  "signals (signalled sig p) = signals p @ [sig]"
  by (simp_all add: signalled_def)

lemma poll_loop_interrupt:
  assumes "late t" "sigint_errno w = None"
  shows "poll_loop w (t # ts) False p = poll_loop w ts True (signalled SIGINT (poll t p))"
  using assms by (simp add: killpg_def Let_def signalled_def)

lemma poll_loop_interrupt_fails:
  assumes "late t" "sigint_errno w = Some e"
  shows "poll_loop w (t # ts) False p = Some (Raised (OSError e), poll t p)"
  using assms by (simp add: killpg_def Let_def)

lemma poll_loop_kill:
  assumes "late t" "sigkill_errno w = None"
  shows "poll_loop w (t # ts) True p = Some (TimedOut, signalled SIGKILL (poll t p))"
  using assms by (simp add: killpg_def Let_def signalled_def)

lemma poll_loop_kill_vanished:
  assumes "late t" "sigkill_errno w = Some 3"
  shows "poll_loop w (t # ts) True p = Some (TimedOut, poll t p)"
  using assms by (simp add: killpg_def Let_def)

lemma poll_loop_kill_fails:
  assumes "late t" "sigkill_errno w = Some e" "e \<noteq> 3"
  shows "poll_loop w (t # ts) True p = Some (Raised (OSError e), poll t p)"
  using assms by (simp add: killpg_def Let_def)

lemma poll_loop_escalates:
  assumes "late t1" "late t2" "sigint_errno w = None"
    "sigkill_errno w = None \<or> sigkill_errno w = Some 3" "returncode p = None"
  shows "\<exists>p'. poll_loop w (t1 # t2 # rest) False p = Some (TimedOut, p')
     \<and> returncode p' = last_polled t1 t2 \<and> stdout p' = stdout p \<and> stderr p' = stderr p
     \<and> spawn_calls p' = spawn_calls p"
proof -
  let ?q = "signalled SIGINT (poll t1 p)"
  have step: "poll_loop w (t1 # t2 # rest) False p = poll_loop w (t2 # rest) True ?q"
    using assms(1,3) by (rule poll_loop_interrupt)
  have rc: "returncode (poll t2 ?q) = last_polled t1 t2"
    using assms(5) by (simp add: poll_fields signalled_fields last_polled_def)
  from assms(4) show ?thesis
  proof
    assume "sigkill_errno w = None"
    with assms(2)
    have "poll_loop w (t2 # rest) True ?q = Some (TimedOut, signalled SIGKILL (poll t2 ?q))"
      by (rule poll_loop_kill)
    then show ?thesis using step rc by (simp add: poll_fields signalled_fields)
  next
    assume "sigkill_errno w = Some 3"
    with assms(2) have "poll_loop w (t2 # rest) True ?q = Some (TimedOut, poll t2 ?q)"
      by (rule poll_loop_kill_vanished)
    then show ?thesis using step rc by (simp add: poll_fields signalled_fields)
  qed
qed

lemma run_script_timed_out:
  assumes "script_isfile w" "\<not> is_windows w" "spawn_errno w = None"
    "ticks w = pre @ t1 # t2 # rest" "\<forall>t\<in>set pre. \<not> late t \<and> polled t = None"
    "late t1" "late t2" "sigint_errno w = None"
    "sigkill_errno w = None \<or> sigkill_errno w = Some 3"
  shows "\<exists>p'. run_script w catch_stderr with_retcode (Some t) raw
       = Some (Inr (timeout_result catch_stderr with_retcode t p'), p')
     \<and> returncode p' = last_polled t1 t2 \<and> stdout p' = Open
     \<and> stderr p' = (if catch_stderr = IsTrue then Open else NoPipe) \<and> spawn_calls p' = 1"
proof -
  let ?p = "spawned catch_stderr"
  have rc: "returncode ?p = None" by (simp add: spawned_def)
  have "poll_loop w (ticks w) False ?p = poll_loop w (t1 # t2 # rest) False ?p"
    unfolding assms(4) using assms(5) rc by (rule poll_loop_waiting)
  moreover from poll_loop_escalates [OF assms(6-9) rc, of rest] obtain p' where
    "poll_loop w (t1 # t2 # rest) False ?p = Some (TimedOut, p')"
    "returncode p' = last_polled t1 t2" "stdout p' = stdout ?p" "stderr p' = stderr ?p"
    "spawn_calls p' = spawn_calls ?p"
    by blast
  ultimately have "run_script w catch_stderr with_retcode (Some t) raw
       = Some (Inr (timeout_result catch_stderr with_retcode t p'), p')
     \<and> returncode p' = last_polled t1 t2 \<and> stdout p' = Open
     \<and> stderr p' = (if catch_stderr = IsTrue then Open else NoPipe) \<and> spawn_calls p' = 1"
    using assms(1-3) by (simp add: run_script_timeout spawned_def)
  then show ?thesis by blast
qed

subsection \<open>The result after a kill\<close>

lemma timeout_result_killed:
  "timeout_result catch_stderr with_retcode t p
     = killed_result (truthy catch_stderr) with_retcode t (returncode p)"
  by (simp add: timeout_result_def killed_result_def timeout_message_def stderr_sentinel_def
        Let_def)

lemma killed_result_matches:
  "matches_shape capture_stderr want_exit_code False
     (killed_result capture_stderr want_exit_code t code)"
  by (simp add: killed_result_def Let_def)


lemma str_int_5: "str_int 5 = ''5''"
  by code_simp

text \<open>
  Claim C2, as the specification states it, asks that the result of a timed-out call still
  has the shape requested by all three flags. It has not when \<^verbatim>\<open>raw\<close> is set: the
  output is the list holding the one explanatory line, not a blob.
\<close>

theorem run_script_timeout_lines_ignore_raw:
  "run_script slow_world Falsy False (Some 5) True
     = Some (Inr (Out (Lines [''Process took more than 5 seconds to complete. Process Killed!''])),
             \<lparr>spawn_calls = 1, returncode = None, stdout = Open, stderr = NoPipe,
                signals = [SIGINT, SIGKILL]\<rparr>)
   \<and> \<not> matches_shape False False True
         (Out (Lines [''Process took more than 5 seconds to complete. Process Killed!'']))"
  by code_simp

text \<open>
  Claim C2, amended. When the deadline passes before any poll has seen the child exit
  (every iteration before the deadline sees it running, the two iterations after the
  deadline deliver the interrupt and then the kill), the call returns the tuple that
  \<^verbatim>\<open>catch_stderr\<close> and \<^verbatim>\<open>with_retcode\<close> ask for; its output is the one-line list
  \<^verbatim>\<open>Process took more than {timeout} seconds to complete. Process Killed!\<close>, its error
  output, when requested, the one-line list that says stderr could not be caught; both are
  lists of lines whatever \<^verbatim>\<open>raw\<close> is.
\<close>

theorem run_script_timeout_result:
  assumes "script_isfile w" "\<not> is_windows w" "spawn_errno w = None"
    "ticks w = pre @ t1 # t2 # rest" "\<forall>t\<in>set pre. \<not> late t \<and> polled t = None"
    "late t1" "late t2" "sigint_errno w = None"
    "sigkill_errno w = None \<or> sigkill_errno w = Some 3"
  shows "\<exists>code p. run_script w catch_stderr with_retcode (Some t) raw
       = Some (Inr (killed_result (truthy catch_stderr) with_retcode t code), p)
     \<and> matches_shape (truthy catch_stderr) with_retcode False
          (killed_result (truthy catch_stderr) with_retcode t code)"
proof -
  from run_script_timed_out [OF assms] obtain p' where
    "run_script w catch_stderr with_retcode (Some t) raw
       = Some (Inr (timeout_result catch_stderr with_retcode t p'), p')"
    by blast
  then show ?thesis
    by (auto simp add: timeout_result_killed killed_result_matches)
qed

theorem run_script_timeout_result_witness:
  "script_isfile slow_world \<and> \<not> is_windows slow_world \<and> spawn_errno slow_world = None
   \<and> ticks slow_world = [\<lparr>polled = None, late = False\<rparr>] @ \<lparr>polled = None, late = True\<rparr>
        # \<lparr>polled = None, late = True\<rparr> # []
   \<and> \<not> late \<lparr>polled = None, late = False\<rparr>
   \<and> polled \<lparr>polled = None, late = False\<rparr> = None
   \<and> sigint_errno slow_world = None \<and> sigkill_errno slow_world = None
   \<and> (\<exists>code p. run_script slow_world IsTrue True (Some 5) True
         = Some (Inr (OutErrCode
              (Lines [''Process took more than 5 seconds to complete. Process Killed!''])
              (Lines [''Process killed, unable to catch stderr output'']) code), p))"
  using run_script_timeout_result [of slow_world "[\<lparr>polled = None, late = False\<rparr>]"
      "\<lparr>polled = None, late = True\<rparr>" "\<lparr>polled = None, late = True\<rparr>" "[]" IsTrue True 5 True]
  by (simp add: slow_world_def hello_world_def killed_result_def truthy_def str_int_5 Let_def)



text \<open>
  Claim C4 asks that the pipes are closed on every exit path. On the timeout path the
  call returns with both pipes still open: lines 253 to 266 return without the
  \<^verbatim>\<open>close()\<close> calls of lines 290 to 294 and 323.
\<close>

theorem run_script_timeout_leaves_pipes_open:
  "run_script slow_world IsTrue True (Some 5) False
     = Some (Inr (OutErrCode
                (Lines [''Process took more than 5 seconds to complete. Process Killed!''])
                (Lines [''Process killed, unable to catch stderr output'']) None),
             \<lparr>spawn_calls = 1, returncode = None, stdout = Open, stderr = Open,
                signals = [SIGINT, SIGKILL]\<rparr>)"
  by code_simp

text \<open>
  Claim C3 asks that errno 3 (no such process) is swallowed at both signals. The
  \<^verbatim>\<open>try\<close> of lines 246 to 251 covers the kill only: at the interrupt of line 242 the same
  error leaves \<^verbatim>\<open>run_script\<close> as an exception, while one iteration later it is dropped.
\<close>

theorem run_script_interrupt_esrch_propagates:
  "run_script race_world Falsy False (Some 5) False
     = Some (Inl (OSError 3),
             \<lparr>spawn_calls = 1, returncode = Some 0, stdout = Open, stderr = NoPipe,
                signals = []\<rparr>)
   \<and> run_script late_race_world Falsy False (Some 5) False
     = Some (Inr (Out (Lines [''Process took more than 5 seconds to complete. Process Killed!''])),
             \<lparr>spawn_calls = 1, returncode = Some 0, stdout = Open, stderr = NoPipe,
                signals = [SIGINT]\<rparr>)"
  by code_simp

section \<open>Properties of the reconciler\<close>

subsection \<open>The groups of a match\<close>

lemma greedy_Some:
  "greedy P k acc s = Some r \<Longrightarrow> \<exists>cap rest. k cap rest = Some r"
proof (induction s arbitrary: acc)
  case Nil
  then show ?case by auto
next
  case (Cons c cs)
  show ?case
  proof (cases "P c")
    case False
    with Cons.prems show ?thesis by auto
  next
    case True
    show ?thesis
    proof (cases "greedy P k (c # acc) cs")
      case None
      with True Cons.prems show ?thesis by auto
    next
      case (Some r')
      with True Cons.prems have "r' = r" by simp
      with Some Cons.IH show ?thesis by blast
    qed
  qed
qed

lemma match_jid_last: "match_atoms [Digits1 g] s = Some groups \<Longrightarrow> \<exists>v. groups = [(g, v)]"
  by (cases s) (auto split: if_splits dest!: greedy_Some)

lemma match_lit: "match_atoms (Lit l # ps) s = Some groups \<Longrightarrow> \<exists>s'. match_atoms ps s' = Some groups"
  by (auto split: if_splits)

lemma match_oneof: "match_atoms (OneOf cs # ps) s = Some groups \<Longrightarrow> \<exists>s'. match_atoms ps s' = Some groups"
  by (cases s) (auto split: if_splits)

lemma match_anystar:
  "match_atoms (AnyStar g # ps) s = Some groups
   \<Longrightarrow> \<exists>v s' groups'. groups = (g, v) # groups' \<and> match_atoms ps s' = Some groups'"
  by (auto dest!: greedy_Some)

lemma match_digits1:
  "match_atoms (Digits1 g # ps) s = Some groups
   \<Longrightarrow> \<exists>v s' groups'. groups = (g, v) # groups' \<and> match_atoms ps s' = Some groups'"
  by (cases s) (auto split: if_splits dest!: greedy_Some)

lemma marker_groups:
  assumes "match_atoms STATE_FUNCTION_RUNNING_RE s = Some groups"
  shows "\<exists>f p d j. groups = [(''state_func'', f), (''pid'', p), (''date'', d), (''jid'', j)]"
proof -
  from assms obtain s1 where
    "match_atoms [OneOf quote_chars, AnyStar ''state_func'', OneOf quote_chars,
      Lit '' is running as PID '', Digits1 ''pid'', Lit '' and was started at '',
      AnyStar ''date'', Lit '' with jid '', Digits1 ''jid''] s1 = Some groups"
    unfolding STATE_FUNCTION_RUNNING_RE_def by (blast dest: match_lit)
  then obtain s2 where
    "match_atoms [AnyStar ''state_func'', OneOf quote_chars,
      Lit '' is running as PID '', Digits1 ''pid'', Lit '' and was started at '',
      AnyStar ''date'', Lit '' with jid '', Digits1 ''jid''] s2 = Some groups"
    by (blast dest: match_oneof)
  then obtain f s3 g3 where g: "groups = (''state_func'', f) # g3" and
    "match_atoms [OneOf quote_chars,
      Lit '' is running as PID '', Digits1 ''pid'', Lit '' and was started at '',
      AnyStar ''date'', Lit '' with jid '', Digits1 ''jid''] s3 = Some g3"
    by (blast dest: match_anystar)
  then obtain s4 where
    "match_atoms [Lit '' is running as PID '', Digits1 ''pid'', Lit '' and was started at '',
      AnyStar ''date'', Lit '' with jid '', Digits1 ''jid''] s4 = Some g3"
    by (blast dest: match_oneof)
  then obtain s5 where
    "match_atoms [Digits1 ''pid'', Lit '' and was started at '',
      AnyStar ''date'', Lit '' with jid '', Digits1 ''jid''] s5 = Some g3"
    by (blast dest: match_lit)
  then obtain p s6 g6 where g3: "g3 = (''pid'', p) # g6" and
    "match_atoms [Lit '' and was started at '',
      AnyStar ''date'', Lit '' with jid '', Digits1 ''jid''] s6 = Some g6"
    by (blast dest: match_digits1)
  then obtain s7 where
    "match_atoms [AnyStar ''date'', Lit '' with jid '', Digits1 ''jid''] s7 = Some g6"
    by (blast dest: match_lit)
  then obtain d s8 g8 where g6: "g6 = (''date'', d) # g8" and
    "match_atoms [Lit '' with jid '', Digits1 ''jid''] s8 = Some g8"
    by (blast dest: match_anystar)
  then obtain s9 where "match_atoms [Digits1 ''jid''] s9 = Some g8"
    by (blast dest: match_lit)
  then obtain j where "g8 = [(''jid'', j)]"
    by (blast dest: match_jid_last)
  with g g3 g6 show ?thesis by simp
qed

lemma marker_jid_None: "marker_jid line = None \<longleftrightarrow> match_atoms STATE_FUNCTION_RUNNING_RE line = None"
proof (cases "match_atoms STATE_FUNCTION_RUNNING_RE line")
  case None
  then show ?thesis by (simp add: marker_jid_def)
next
  case (Some groups)
  from marker_groups [OF this] obtain f p d j where
    "groups = [(''state_func'', f), (''pid'', p), (''date'', d), (''jid'', j)]" by blast
  with Some show ?thesis by (simp add: marker_jid_def)
qed

lemma item_jid_None: "item_jid item = None \<longleftrightarrow> \<not> is_marker item"
  by (cases item) (simp_all add: marker_jid_None)

subsection \<open>The loop handles each job id once\<close>

lemma marker_jids_Cons:
  "marker_jids (item # items)
     = (case item_jid item of None \<Rightarrow> marker_jids items | Some j \<Rightarrow> j # marker_jids items)"
  by (simp add: marker_jids_def List.map_filter_simps split: option.split)

lemma marker_jids_Nil: "marker_jids [] = []"
  by (simp add: marker_jids_def List.map_filter_simps)

lemma check_loop_skip:
  "item_jid item = None \<Longrightarrow> check_loop rp rf (item # items) jids ret s = check_loop rp rf items jids ret s"
  by (cases item) simp_all

lemma check_loop_seen:
  "item_jid item = Some jid \<Longrightarrow> jid \<in> set jids
   \<Longrightarrow> check_loop rp rf (item # items) jids ret s = check_loop rp rf items jids ret s"
  by (cases item) simp_all

lemma check_loop_new:
  "item_jid item = Some jid \<Longrightarrow> jid \<notin> set jids
   \<Longrightarrow> check_loop rp rf (item # items) jids ret s =
     (case rf ''saltutil.find_job'' [PyStr jid] s of
        None \<Rightarrow> None
      | Some (Inl e, s1) \<Rightarrow> Some (Inl e, s1)
      | Some (Inr job_data, s1) \<Rightarrow>
          (case rf ''saltutil.kill_job'' [PyStr jid] s1 of
             None \<Rightarrow> None
           | Some (Inl e, s2) \<Rightarrow> Some (Inl e, s2)
           | Some (Inr job_kill, s2) \<Rightarrow>
               check_loop rp rf items (jids @ [jid])
                 (ret @ [PyStr (enforced_line rp job_data job_kill)]) s2))"
  by (cases item) simp_all

lemma check_loop_handle_jobs:
  "check_loop rp rf items jids ret s
     = append_diagnostics ret
         (handle_jobs rp rf (first_occurrences jids (marker_jids items)) s)"
proof (induction items arbitrary: jids ret s)
  case Nil
  show ?case by (simp add: marker_jids_Nil append_diagnostics_def)
next
  case (Cons item items)
  show ?case
  proof (cases "item_jid item")
    case None
    then show ?thesis by (simp add: check_loop_skip marker_jids_Cons Cons.IH del: check_loop.simps)
  next
    case (Some jid)
    show ?thesis
    proof (cases "jid \<in> set jids")
      case True
      with Some show ?thesis
        by (simp add: check_loop_seen marker_jids_Cons Cons.IH del: check_loop.simps)
    next
      case False
      with Some show ?thesis
        by (simp add: check_loop_new marker_jids_Cons Cons.IH append_diagnostics_def
              del: check_loop.simps split: option.split sum.split prod.split)
    qed
  qed
qed

lemma first_occurrences_set:
  "set (first_occurrences seen xs) = set xs - set seen"
  by (induction xs arbitrary: seen) auto

lemma first_occurrences_distinct: "distinct (first_occurrences seen xs)"
  by (induction xs arbitrary: seen) (auto simp add: first_occurrences_set)






subsection \<open>Counting the calls of a pass\<close>

lemma count_job_calls:
  "count_list (job_calls j) (''saltutil.find_job'', [PyStr jid]) = (if j = jid then 1 else 0)"
  "count_list (job_calls j) (''saltutil.kill_job'', [PyStr jid]) = (if j = jid then 1 else 0)"
  by (simp_all add: job_calls_def)

lemma count_concat_job_calls:
  assumes "distinct J"
  shows "count_list (concat (map job_calls J)) (''saltutil.find_job'', [PyStr jid])
           = (if jid \<in> set J then 1 else 0)"
    and "count_list (concat (map job_calls J)) (''saltutil.kill_job'', [PyStr jid])
           = (if jid \<in> set J then 1 else 0)"
  using assms by (induction J) (auto simp add: count_job_calls)

lemma handle_jobs_recording_Cons:
  "handle_jobs rp (recording reply) (jid # J) tr =
     (case reply ''saltutil.find_job'' [PyStr jid] of
        Inl e \<Rightarrow> Some (Inl e, tr @ [(''saltutil.find_job'', [PyStr jid])])
      | Inr job_data \<Rightarrow>
          (case reply ''saltutil.kill_job'' [PyStr jid] of
             Inl e \<Rightarrow> Some (Inl e, tr @ job_calls jid)
           | Inr job_kill \<Rightarrow>
               (case handle_jobs rp (recording reply) J (tr @ job_calls jid) of
                  None \<Rightarrow> None
                | Some (Inl e, s3) \<Rightarrow> Some (Inl e, s3)
                | Some (Inr ds, s3) \<Rightarrow>
                    Some (Inr (enforced_line rp job_data job_kill # ds), s3))))"
  by (simp add: recording_def job_calls_def split: sum.split)

lemma handle_jobs_recording:
  assumes "handle_jobs rp (recording reply) J tr = Some (r, tr')"
  shows "\<exists>K. tr' = tr @ K
     \<and> (\<forall>c. count_list K c \<le> count_list (concat (map job_calls J)) c)
     \<and> (\<forall>ds. r = Inr ds \<longrightarrow> K = concat (map job_calls J))"
  using assms
proof (induction J arbitrary: tr r)
  case Nil
  then show ?case by simp
next
  case (Cons jid J)
  note step = Cons.prems [unfolded handle_jobs_recording_Cons]
  show ?case
  proof (cases "reply ''saltutil.find_job'' [PyStr jid]")
    case (Inl e)
    with step have "tr' = tr @ [(''saltutil.find_job'', [PyStr jid])]" "r = Inl e"
      by simp_all
    then show ?thesis by (auto simp add: job_calls_def)
  next
    case find: (Inr job_data)
    show ?thesis
    proof (cases "reply ''saltutil.kill_job'' [PyStr jid]")
      case (Inl e)
      with find step have "tr' = tr @ job_calls jid" "r = Inl e"
        by simp_all
      then show ?thesis by auto
    next
      case kill: (Inr job_kill)
      with find step have
        "(case handle_jobs rp (recording reply) J (tr @ job_calls jid) of
            None \<Rightarrow> None
          | Some (Inl e, s3) \<Rightarrow> Some (Inl e, s3)
          | Some (Inr ds, s3) \<Rightarrow> Some (Inr (enforced_line rp job_data job_kill # ds), s3))
         = Some (r, tr')"
        by simp
      then obtain r0 where
        rest: "handle_jobs rp (recording reply) J (tr @ job_calls jid) = Some (r0, tr')" and
        r: "\<forall>ds. r = Inr ds \<longrightarrow> (\<exists>ds0. r0 = Inr ds0)"
        by (auto split: option.splits sum.splits prod.splits)
      from Cons.IH [OF rest] obtain K where
        K: "tr' = (tr @ job_calls jid) @ K"
          "\<forall>c. count_list K c \<le> count_list (concat (map job_calls J)) c"
          "\<forall>ds. r0 = Inr ds \<longrightarrow> K = concat (map job_calls J)"
        by blast
      have "tr' = tr @ (job_calls jid @ K)" using K(1) by simp
      moreover have "\<forall>c. count_list (job_calls jid @ K) c
          \<le> count_list (concat (map job_calls (jid # J))) c"
        using K(2) by simp
      moreover have "\<forall>ds. r = Inr ds \<longrightarrow> job_calls jid @ K = concat (map job_calls (jid # J))"
        using K(3) r by auto
      ultimately show ?thesis by blast
    qed
  qed
qed

lemma check_state_return_with_list_calls:
  assumes "check_state_return_with rp rf (PyList items) s = Some (r, s')"
  shows "\<exists>r0. handle_jobs rp rf (first_occurrences [] (marker_jids items)) s = Some (r0, s')
     \<and> (\<forall>v. r = Inr v \<longrightarrow> (\<exists>ds. r0 = Inr ds))"
  using assms
  by (auto simp add: check_state_return_with_def check_loop_handle_jobs append_diagnostics_def
        split: option.splits sum.splits prod.splits)

text \<open>
  Claim C6. Whatever \<^verbatim>\<open>run_function\<close> answers, one pass over a list calls
  \<^verbatim>\<open>saltutil.find_job\<close> at most once and \<^verbatim>\<open>saltutil.kill_job\<close> at most once for a job
  id, and exactly once each when the pass returns and the job id occurs in a marker line,
  however many marker lines carry it. The calls counted are those of the pass itself:
  \<^verbatim>\<open>run_function\<close> is the recorder, so what a call does inside (its own reconciliation
  of the reply is another pass) is not part of the trace.
\<close>

theorem check_state_return_one_query_per_jid:
  assumes "check_state_return_with rp (recording reply) (PyList items) [] = Some (r, tr)"
  shows "count_list tr (''saltutil.find_job'', [PyStr jid]) \<le> 1
     \<and> count_list tr (''saltutil.kill_job'', [PyStr jid]) \<le> 1
     \<and> (\<forall>v. r = Inr v \<and> jid \<in> set (marker_jids items) \<longrightarrow>
            count_list tr (''saltutil.find_job'', [PyStr jid]) = 1
          \<and> count_list tr (''saltutil.kill_job'', [PyStr jid]) = 1)"
proof -
  let ?J = "first_occurrences [] (marker_jids items)"
  have d: "distinct ?J" by (rule first_occurrences_distinct)
  from check_state_return_with_list_calls [OF assms] obtain r0 where
    h: "handle_jobs rp (recording reply) ?J [] = Some (r0, tr)" and
    r: "\<And>v. r = Inr v \<Longrightarrow> \<exists>ds. r0 = Inr ds"
    by auto
  from handle_jobs_recording [OF h] have
    le: "\<And>c. count_list tr c \<le> count_list (concat (map job_calls ?J)) c" and
    eq: "\<And>ds. r0 = Inr ds \<Longrightarrow> tr = concat (map job_calls ?J)"
    by auto
  have "count_list tr (''saltutil.find_job'', [PyStr jid]) \<le> 1"
    using le [of "(''saltutil.find_job'', [PyStr jid])"] count_concat_job_calls(1) [OF d, of jid]
    by (simp split: if_splits)
  moreover have "count_list tr (''saltutil.kill_job'', [PyStr jid]) \<le> 1"
    using le [of "(''saltutil.kill_job'', [PyStr jid])"] count_concat_job_calls(2) [OF d, of jid]
    by (simp split: if_splits)
  moreover have "count_list tr (''saltutil.find_job'', [PyStr jid]) = 1
          \<and> count_list tr (''saltutil.kill_job'', [PyStr jid]) = 1"
    if "r = Inr v" "jid \<in> set (marker_jids items)" for v
  proof -
    from r [OF that(1)] obtain ds where "r0 = Inr ds" by blast
    then have "tr = concat (map job_calls ?J)" by (rule eq)
    moreover have "jid \<in> set ?J" using that(2) by (simp add: first_occurrences_set)
    ultimately show ?thesis using count_concat_job_calls [OF d, of jid] by simp
  qed
  ultimately show ?thesis by blast
qed

lemma twin_lines_run:
  "check_state_return_with plain_repr (recording echo_reply) (PyList twin_lines) []
     = Some (Inr (PyList (twin_lines @
         [PyStr (enforced_line plain_repr (PyStr ''saltutil.find_job'') (PyStr ''saltutil.kill_job''))])),
         job_calls ''456'')"
  by code_simp

lemma twin_lines_jids: "marker_jids twin_lines = [''456'', ''456'']"
  by code_simp

theorem check_state_return_one_query_per_jid_witness:
  "check_state_return_with plain_repr (recording echo_reply) (PyList twin_lines) []
     = Some (Inr (PyList (twin_lines @
         [PyStr (enforced_line plain_repr (PyStr ''saltutil.find_job'')
                   (PyStr ''saltutil.kill_job''))])),
         job_calls ''456'')
   \<and> ''456'' \<in> set (marker_jids twin_lines)
   \<and> count_list (job_calls ''456'') (''saltutil.find_job'', [PyStr ''456'']) = 1
   \<and> count_list (job_calls ''456'') (''saltutil.kill_job'', [PyStr ''456'']) = 1"
  using check_state_return_one_query_per_jid [OF twin_lines_run, of "''456''"] twin_lines_run
  by (simp add: twin_lines_jids)

subsection \<open>Inputs that need no reconciliation\<close>

lemma no_markers_no_jids:
  assumes "\<forall>item\<in>set items. \<not> is_marker item"
  shows "marker_jids items = []"
  using assms by (induction items) (simp_all add: marker_jids_Nil marker_jids_Cons item_jid_None [symmetric])

text \<open>
  Claim C8. A dictionary is returned unchanged, and so is a list none of whose items is
  a marker line; no call is made in either case.
\<close>

theorem check_state_return_identity:
  "check_state_return n rp cl (PyDict d) log = Some (Inr (PyDict d), log)
   \<and> ((\<forall>item\<in>set items. \<not> is_marker item) \<longrightarrow>
        check_state_return n rp cl (PyList items) log = Some (Inr (PyList items), log))"
  by (simp add: check_state_return_def check_state_return_with_def check_loop_handle_jobs
        no_markers_no_jids append_diagnostics_def)

lemma plain_lines_no_marker: "\<forall>item\<in>set plain_lines. \<not> is_marker item"
  by code_simp

theorem check_state_return_identity_witness:
  "\<not> is_marker (PyStr ''The function is running'')
   \<and> check_state_return 0 plain_repr echo_client (PyDict [(PyStr ''k'', PyInt 1)]) []
       = Some (Inr (PyDict [(PyStr ''k'', PyInt 1)]), [])
   \<and> check_state_return 0 plain_repr echo_client (PyList plain_lines) []
       = Some (Inr (PyList plain_lines), [])"
  using check_state_return_identity [of 0 plain_repr echo_client "[(PyStr ''k'', PyInt 1)]" "[]"
      plain_lines] plain_lines_no_marker
  by (simp add: plain_lines_def)


end
